theory Spec2Isabelle
  imports Complex_Main
begin

section \<open>Values, exceptions and the numeric helpers of \<^verbatim>\<open>backend/main.py\<close>\<close>

text \<open>
  The service is one Python module. Its own logic is modelled here as it is written;
  the calls into librosa, numpy, scikit-learn, base64 and the operating system are
  parameters of the model or are written out where their behaviour is elementary
  (padding, slicing, indexing, mean, minimum, maximum).

  A Python float is a binary64 number and is held as the \<^typ>\<open>real\<close> it denotes. The
  float operations of the module itself (the product of line 91, the product of line 246
  and \<^verbatim>\<open>round\<close> of line 250) round to the nearest binary64 number, ties to even, as
  IEEE 754 does. Infinities and NaN are not values of the model: a result beyond the
  largest binary64 number is outside it. The reductions of numpy are taken without
  rounding error.
\<close>

type_synonym bytes = string
type_synonym path = string
type_synonym array1 = "real list"
type_synonym array2 = "real list list"

text \<open>
  An exception is either FastAPI's \<^verbatim>\<open>HTTPException(status_code, detail)\<close> or any other
  Python exception, kept as its class name and the text \<^verbatim>\<open>str(e)\<close> gives.
\<close>

datatype exn = HTTPException nat string | PyError string string

definition then_do :: "exn + 'a \<Rightarrow> ('a \<Rightarrow> exn + 'b) \<Rightarrow> exn + 'b" where
  "then_do m f = (case m of Inl e \<Rightarrow> Inl e | Inr x \<Rightarrow> f x)"

text \<open>\<^verbatim>\<open>int(x)\<close> of a float truncates towards zero.\<close>

definition py_int :: "real \<Rightarrow> int" where
  "py_int x = (if 0 \<le> x then \<lfloor>x\<rfloor> else \<lceil>x\<rceil>)"

text \<open>
  \<^verbatim>\<open>a[:n]\<close>: the first \<open>n\<close> elements; a negative \<open>n\<close> counts from the end.
\<close>

definition py_slice_to :: "'a list \<Rightarrow> int \<Rightarrow> 'a list" where
  "py_slice_to xs n =
     (if 0 \<le> n then take (nat n) xs else take (nat (int (length xs) + n)) xs)"

text \<open>
  \<^verbatim>\<open>np.pad(a, (0, k), mode='constant')\<close>: \<open>k\<close> zeros after the array. The one call
  of the source has \<open>k > 0\<close> (numpy raises on a negative width).
\<close>

definition np_pad_right :: "array1 \<Rightarrow> int \<Rightarrow> array1" where
  "np_pad_right a k = a @ replicate (nat k) 0"

subsection \<open>Binary64 arithmetic\<close>

text \<open>Rounding to the nearest integer, a tie to the even one.\<close>

definition round_half_even :: "real \<Rightarrow> int" where
  "round_half_even y =
     (let f = \<lfloor>y\<rfloor>; d = y - of_int f
      in if d < 1/2 then f else if 1/2 < d then f + 1 else if even f then f else f + 1)"

text \<open>The binary exponent of a positive real: \<open>2 powi binade x \<le> x < 2 powi (binade x + 1)\<close>.\<close>

function binade :: "real \<Rightarrow> int" where
  "binade x =
     (if 0 < x \<and> x < 1 then binade (2 * x) - 1
      else if 2 \<le> x then binade (x / 2) + 1
      else 0)"
  by pat_completeness auto
termination
proof (relation "measure (\<lambda>x. nat \<bar>\<lfloor>log 2 x\<rfloor>\<bar>)")
  show "wf (measure (\<lambda>x. nat \<bar>\<lfloor>log 2 x\<rfloor>\<bar>))" by simp
next
  fix x :: real
  assume x: "0 < x \<and> x < 1"
  then have "log 2 (2 * x) = 1 + log 2 x" by (simp add: log_mult)
  moreover from x have "log 2 x < 0" by simp
  then have "\<lfloor>log 2 x\<rfloor> \<le> -1" by (simp add: floor_le_iff)
  ultimately show "(2 * x, x) \<in> measure (\<lambda>x. nat \<bar>\<lfloor>log 2 x\<rfloor>\<bar>)" by simp
next
  fix x :: real
  assume "\<not> (0 < x \<and> x < 1)" and x: "2 \<le> x"
  then have "log 2 (x / 2) = log 2 x - 1" by (simp add: log_divide)
  moreover from x have "1 \<le> log 2 x" by (simp add: le_log_iff)
  then have "1 \<le> \<lfloor>log 2 x\<rfloor>" by (simp add: le_floor_iff)
  ultimately show "(x / 2, x) \<in> measure (\<lambda>x. nat \<bar>\<lfloor>log 2 x\<rfloor>\<bar>)" by simp
qed

declare binade.simps [simp del]

text \<open>
  The spacing of the binary64 numbers around \<open>x\<close>: 52 fraction bits below the exponent,
  and the subnormal spacing below \<open>2 powi - 1022\<close>.
\<close>

definition ulp :: "real \<Rightarrow> real" where
  "ulp x = 2 powi (max (- 1022) (binade \<bar>x\<bar>) - 52)"

text \<open>The binary64 number nearest to a real, a tie to the even significand.\<close>

definition to_double :: "real \<Rightarrow> real" where
  "to_double x = of_int (round_half_even (x / ulp x)) * ulp x"

text \<open>The largest binary64 number, and the product of two floats.\<close>

definition max_double :: real where
  "max_double = (2 ^ 53 - 1) * 2 ^ 971"

definition float_mul :: "real \<Rightarrow> real \<Rightarrow> real" where
  "float_mul a b = to_double (a * b)"

text \<open>
  \<^verbatim>\<open>round(x, ndigits)\<close> of a float: the decimal with \<open>ndigits\<close> places nearest to the
  exact value of \<open>x\<close>, a tie to the even one, and of that the nearest binary64 number.
\<close>

definition py_round :: "real \<Rightarrow> nat \<Rightarrow> real" where
  "py_round x ndigits = to_double (of_int (round_half_even (x * 10 ^ ndigits)) / 10 ^ ndigits)"

subsection \<open>Lines 90--95: pad or trim to the fixed duration\<close>

definition target_length :: "real \<Rightarrow> int \<Rightarrow> int" where
  "target_length target_duration sr = py_int (float_mul target_duration (real_of_int sr))"

definition pad_or_trim :: "array1 \<Rightarrow> real \<Rightarrow> int \<Rightarrow> array1" where
  "pad_or_trim audio target_duration sr =
     (if int (length audio) < target_length target_duration sr
      then np_pad_right audio (target_length target_duration sr - int (length audio))
      else py_slice_to audio (target_length target_duration sr))"

subsection \<open>numpy reductions\<close>

text \<open>
  \<^verbatim>\<open>np.mean\<close> and \<^verbatim>\<open>np.std\<close> never raise; on an empty array numpy gives NaN, which the
  idealised floats do not have. In the source every mean and standard deviation is followed
  by \<^verbatim>\<open>np.min\<close> of the same array, which raises on an empty array, so that value never
  reaches a returned vector.
\<close>

definition np_mean :: "array1 \<Rightarrow> real" where
  "np_mean xs = sum_list xs / real (length xs)"

definition np_std :: "array1 \<Rightarrow> real" where
  "np_std xs = sqrt (np_mean (map (\<lambda>x. (x - np_mean xs)\<^sup>2) xs))"

definition zero_size :: "string \<Rightarrow> exn" where
  "zero_size which = PyError ''ValueError''
     (''zero-size array to reduction operation '' @ which @ '' which has no identity'')"

definition np_min :: "array1 \<Rightarrow> exn + real" where
  "np_min xs = (case xs of [] \<Rightarrow> Inl (zero_size ''minimum'') | x # r \<Rightarrow> Inr (fold min r x))"

definition np_max :: "array1 \<Rightarrow> exn + real" where
  "np_max xs = (case xs of [] \<Rightarrow> Inl (zero_size ''maximum'') | x # r \<Rightarrow> Inr (fold max r x))"

text \<open>
  The reductions along \<^verbatim>\<open>axis=1\<close> of a matrix held as the list of its rows: one value
  per row. A matrix with no columns has empty rows, and the minimum and maximum raise.
\<close>

definition np_mean_axis1 :: "array2 \<Rightarrow> array1" where
  "np_mean_axis1 m = map np_mean m"

definition np_std_axis1 :: "array2 \<Rightarrow> array1" where
  "np_std_axis1 m = map np_std m"

definition np_min_axis1 :: "array2 \<Rightarrow> exn + array1" where
  "np_min_axis1 m =
     (if [] \<in> set m then Inl (zero_size ''minimum'')
      else Inr (map (\<lambda>row. fold min (tl row) (hd row)) m))"

definition np_max_axis1 :: "array2 \<Rightarrow> exn + array1" where
  "np_max_axis1 m =
     (if [] \<in> set m then Inl (zero_size ''maximum'')
      else Inr (map (\<lambda>row. fold max (tl row) (hd row)) m))"


text \<open>\<^verbatim>\<open>str(n)\<close> of an integer: its decimal digits, with a minus sign when negative.\<close>

definition digit_char :: "nat \<Rightarrow> char" where
  "digit_char d = ''0123456789'' ! d"

fun str_nat :: "nat \<Rightarrow> string" where
  "str_nat n =
     (if n < 10 then [digit_char n] else str_nat (n div 10) @ [digit_char (n mod 10)])"

declare str_nat.simps [simp del]

definition str_int :: "int \<Rightarrow> string" where
  "str_int i = (if i < 0 then CHR ''-'' # str_nat (nat (- i)) else str_nat (nat i))"

text \<open>
  \<^verbatim>\<open>a[i]\<close> on a one-dimensional array: a negative index counts from the end, an index
  out of range raises \<^verbatim>\<open>IndexError\<close>.
\<close>

definition np_index :: "array1 \<Rightarrow> int \<Rightarrow> exn + real" where
  "np_index a i =
     (if 0 \<le> i \<and> i < int (length a) then Inr (a ! nat i)
      else if i < 0 \<and> - int (length a) \<le> i then Inr (a ! nat (int (length a) + i))
      else Inl (PyError ''IndexError''
             (''index '' @ str_int i @ '' is out of bounds for axis 0 with size ''
              @ str_nat (length a))))"

definition quoted :: "string \<Rightarrow> string" where
  "quoted s = [CHR 0x27] @ s @ [CHR 0x27]"

section \<open>The external libraries, the loaded artifacts and the world\<close>

text \<open>
  The library calls of the module, as functions of the arguments the source passes. Each
  may raise. \<open>librosa_load\<close> takes the bytes of the file it is asked to read;
  \<open>http_exception_str\<close> is \<^verbatim>\<open>str(e)\<close> of an \<^verbatim>\<open>HTTPException\<close>, which depends on the
  installed Starlette.
\<close>

record libs =
  b64decode :: "string \<Rightarrow> exn + bytes"
  librosa_load :: "bytes \<Rightarrow> int \<Rightarrow> real \<Rightarrow> exn + array1"
  librosa_mfcc :: "array1 \<Rightarrow> int \<Rightarrow> nat \<Rightarrow> exn + array2"
  spectral_centroid :: "array1 \<Rightarrow> int \<Rightarrow> exn + array2"
  spectral_bandwidth :: "array1 \<Rightarrow> int \<Rightarrow> exn + array2"
  spectral_rolloff :: "array1 \<Rightarrow> int \<Rightarrow> exn + array2"
  zero_crossing_rate :: "array1 \<Rightarrow> exn + array2"
  chroma_stft :: "array1 \<Rightarrow> int \<Rightarrow> exn + array2"
  spectral_contrast :: "array1 \<Rightarrow> int \<Rightarrow> exn + array2"
  tonnetz :: "array1 \<Rightarrow> int \<Rightarrow> exn + array2"
  librosa_rms :: "array1 \<Rightarrow> exn + array2"
  beat_track :: "array1 \<Rightarrow> int \<Rightarrow> exn + real"
  http_exception_str :: "nat \<Rightarrow> string \<Rightarrow> string"

definition str_exn :: "libs \<Rightarrow> exn \<Rightarrow> string" where
  "str_exn lib e =
     (case e of HTTPException status_code detail \<Rightarrow> http_exception_str lib status_code detail
      | PyError cls msg \<Rightarrow> msg)"

text \<open>The files on disk and the lines printed so far.\<close>

record world =
  files :: "path \<rightharpoonup> bytes"
  stdout :: "string list"

definition print :: "world \<Rightarrow> string \<Rightarrow> world" where
  "print w line = w\<lparr>stdout := stdout w @ [line]\<rparr>"

section \<open>Feature extraction (lines 81--174)\<close>

text \<open>
  The four appends the source repeats for each aggregate transform: mean, standard
  deviation, minimum and maximum over the whole matrix.
\<close>

definition append_stats :: "array1 \<Rightarrow> array2 \<Rightarrow> exn + array1" where
  "append_stats features a =
     then_do (np_min (concat a)) (\<lambda>mn.
     then_do (np_max (concat a)) (\<lambda>mx.
       Inr (features @ [np_mean (concat a), np_std (concat a), mn, mx])))"

text \<open>Lines 97--170, on the normalised waveform.\<close>

definition compute_features :: "libs \<Rightarrow> array1 \<Rightarrow> int \<Rightarrow> exn + array1" where
  "compute_features lib audio sr =
     then_do (librosa_mfcc lib audio sr 13) (\<lambda>mfcc.
     then_do (np_min_axis1 mfcc) (\<lambda>mfcc_min.
     then_do (np_max_axis1 mfcc) (\<lambda>mfcc_max.
     let features = [] @ np_mean_axis1 mfcc @ np_std_axis1 mfcc @ mfcc_min @ mfcc_max in
     then_do (spectral_centroid lib audio sr) (\<lambda>a.
     then_do (append_stats features a) (\<lambda>features.
     then_do (spectral_bandwidth lib audio sr) (\<lambda>a.
     then_do (append_stats features a) (\<lambda>features.
     then_do (spectral_rolloff lib audio sr) (\<lambda>a.
     then_do (append_stats features a) (\<lambda>features.
     then_do (zero_crossing_rate lib audio) (\<lambda>a.
     then_do (append_stats features a) (\<lambda>features.
     then_do (chroma_stft lib audio sr) (\<lambda>a.
     then_do (append_stats features a) (\<lambda>features.
     then_do (spectral_contrast lib audio sr) (\<lambda>a.
     then_do (append_stats features a) (\<lambda>features.
     then_do (tonnetz lib audio sr) (\<lambda>a.
     then_do (append_stats features a) (\<lambda>features.
     then_do (librosa_rms lib audio) (\<lambda>a.
     then_do (append_stats features a) (\<lambda>features.
     then_do (beat_track lib audio sr) (\<lambda>tempo.
       Inr (features @ [tempo])))))))))))))))))))))"

text \<open>Line 88: \<^verbatim>\<open>librosa.load\<close> reads the file at the path and decodes it.\<close>

definition load_path :: "libs \<Rightarrow> world \<Rightarrow> path \<Rightarrow> int \<Rightarrow> real \<Rightarrow> exn + array1" where
  "load_path lib w audio_path sr duration =
     (case files w audio_path of
        None \<Rightarrow> Inl (PyError ''FileNotFoundError'' (''No such file or directory: '' @ quoted audio_path))
      | Some content \<Rightarrow> librosa_load lib content sr duration)"

text \<open>
  The whole function: any exception is printed and \<^verbatim>\<open>None\<close> is returned in place of
  the vector.
\<close>

definition extract_audio_features ::
    "libs \<Rightarrow> world \<Rightarrow> path \<Rightarrow> real \<Rightarrow> int \<Rightarrow> array1 option \<times> world" where
  "extract_audio_features lib w audio_path target_duration sr =
     (case then_do (load_path lib w audio_path sr target_duration) (\<lambda>audio.
             compute_features lib (pad_or_trim audio target_duration sr) sr) of
        Inr features \<Rightarrow> (Some features, w)
      | Inl e \<Rightarrow> (None, print w (''Error extracting features: '' @ str_exn lib e)))"

section \<open>Loaded state, startup and the endpoints\<close>

record classifier =
  predict :: "array1 \<Rightarrow> exn + int"
  predict_proba :: "array1 \<Rightarrow> exn + array1"

record scaler_obj =
  transform :: "array1 \<Rightarrow> exn + array1"

type_synonym config = "string \<rightharpoonup> (string \<rightharpoonup> string)"

text \<open>The three module-level globals.\<close>

record globals =
  model :: "classifier option"
  scaler :: "scaler_obj option"
  config :: "config option"

definition initial_globals :: globals where
  "initial_globals = \<lparr>model = None, scaler = None, config = None\<rparr>"

definition is_not_None :: "'a option \<Rightarrow> bool" where
  "is_not_None x = (case x of None \<Rightarrow> False | Some _ \<Rightarrow> True)"

record prediction_request =
  audio :: string

record prediction_response =
  predicted_cough_type :: string
  confidence_score :: real
  message :: "string option"

subsection \<open>Lines 53--79 and 176--185: loading the artifacts\<close>

text \<open>
  \<^verbatim>\<open>joblib.load\<close> and \<^verbatim>\<open>open\<close> with \<^verbatim>\<open>json.load\<close>, as functions of the path. The
  globals are assigned one after the other, so a failure leaves the earlier ones set.
\<close>

record artifact_io =
  joblib_load_model :: "path \<Rightarrow> exn + classifier"
  joblib_load_scaler :: "path \<Rightarrow> exn + scaler_obj"
  json_load :: "path \<Rightarrow> exn + config"

definition model_dir :: path where
  "model_dir = ''/home/ubuntu/coughsense_project/ml_training/trained_model''"

definition path_join :: "path \<Rightarrow> path \<Rightarrow> path" where
  "path_join d f = d @ ''/'' @ f"

definition tick :: string where
  "tick = [CHR 0xE2, CHR 0x9C, CHR 0x93]"

definition cross :: string where
  "cross = [CHR 0xE2, CHR 0x9C, CHR 0x97]"

definition load_failed :: "libs \<Rightarrow> exn \<Rightarrow> globals \<Rightarrow> world \<Rightarrow> bool \<times> globals \<times> world" where
  "load_failed lib e g w = (False, g, print w (cross @ '' Error loading models: '' @ str_exn lib e))"

definition load_models :: "libs \<Rightarrow> artifact_io \<Rightarrow> globals \<Rightarrow> world \<Rightarrow> bool \<times> globals \<times> world" where
  "load_models lib io g w =
     (let model_path = path_join model_dir ''cough_classifier_model.pkl'' in
      case joblib_load_model io model_path of
        Inl e \<Rightarrow> load_failed lib e g w
      | Inr m \<Rightarrow>
         (let g1 = g\<lparr>model := Some m\<rparr>;
              w1 = print w (tick @ '' Model loaded from: '' @ model_path);
              scaler_path = path_join model_dir ''feature_scaler.pkl''
          in case joblib_load_scaler io scaler_path of
               Inl e \<Rightarrow> load_failed lib e g1 w1
             | Inr s \<Rightarrow>
                (let g2 = g1\<lparr>scaler := Some s\<rparr>;
                     w2 = print w1 (tick @ '' Scaler loaded from: '' @ scaler_path);
                     config_path = path_join model_dir ''model_config.json''
                 in case json_load io config_path of
                      Inl e \<Rightarrow> load_failed lib e g2 w2
                    | Inr c \<Rightarrow>
                       (True, g2\<lparr>config := Some c\<rparr>,
                        print w2 (tick @ '' Configuration loaded from: '' @ config_path)))))"

definition startup_event :: "libs \<Rightarrow> artifact_io \<Rightarrow> world \<Rightarrow> globals \<times> world" where
  "startup_event lib io w =
     (let w0 = print (print (print w (replicate 60 CHR ''=''))
                 ''Starting Cough Classification ML Service'') (replicate 60 CHR ''='');
          (success, g, w1) = load_models lib io initial_globals w0;
          w2 = (if \<not> success
                then print w1 ''WARNING: Models not loaded. Service will not function correctly.''
                else w1)
      in (g, print w2 (replicate 60 CHR ''='')))"

subsection \<open>Lines 187--205: the two health endpoints\<close>

datatype json = JStr string | JBool bool

definition root :: "globals \<Rightarrow> (string \<times> json) list" where
  "root g =
     [(''service'', JStr ''Cough Classification ML API''),
      (''status'', JStr ''running''),
      (''model_loaded'', JBool (is_not_None (model g))),
      (''version'', JStr ''1.0.0'')]"

definition health :: "globals \<Rightarrow> (string \<times> json) list" where
  "health g =
     [(''status'', JStr (if is_not_None (model g) then ''healthy'' else ''unhealthy'')),
      (''model_loaded'', JBool (is_not_None (model g))),
      (''scaler_loaded'', JBool (is_not_None (scaler g))),
      (''config_loaded'', JBool (is_not_None (config g)))]"

subsection \<open>Lines 207--261: the prediction endpoint\<close>

text \<open>Line 245: \<^verbatim>\<open>config['label_mapping'][key]\<close>.\<close>

definition label_lookup :: "config option \<Rightarrow> string \<Rightarrow> exn + string" where
  "label_lookup cfg key =
     (case cfg of
        None \<Rightarrow> Inl (PyError ''TypeError'' (quoted ''NoneType'' @ '' object is not subscriptable''))
      | Some c \<Rightarrow>
         (case c ''label_mapping'' of
            None \<Rightarrow> Inl (PyError ''KeyError'' (quoted ''label_mapping''))
          | Some label_mapping \<Rightarrow>
             (case label_mapping key of
                None \<Rightarrow> Inl (PyError ''KeyError'' (quoted key))
              | Some cough_type \<Rightarrow> Inr cough_type)))"

text \<open>Lines 237--252: scale, classify, translate the label, derive the confidence.\<close>

definition predict_steps ::
    "classifier \<Rightarrow> scaler_obj \<Rightarrow> config option \<Rightarrow> array1 \<Rightarrow> exn + prediction_response" where
  "predict_steps m sc cfg features =
     then_do (transform sc features) (\<lambda>features_scaled.
     then_do (predict m features_scaled) (\<lambda>prediction.
     then_do (predict_proba m features_scaled) (\<lambda>prediction_proba.
     then_do (label_lookup cfg (str_int prediction)) (\<lambda>cough_type.
     then_do (np_index prediction_proba prediction) (\<lambda>p.
       Inr \<lparr>predicted_cough_type = cough_type,
            confidence_score = py_round (float_mul p 100) 2,
            message = Some ''Prediction completed successfully''\<rparr>)))))"

text \<open>Lines 230--252: the body of the inner \<^verbatim>\<open>try\<close>, on the temporary file.\<close>

definition predict_inner ::
    "libs \<Rightarrow> classifier \<Rightarrow> scaler_obj \<Rightarrow> config option \<Rightarrow> world \<Rightarrow> path
      \<Rightarrow> (exn + prediction_response) \<times> world" where
  "predict_inner lib m sc cfg w temp_path =
     (case extract_audio_features lib w temp_path 5 22050 of
        (None, w') \<Rightarrow> (Inl (HTTPException 400 ''Failed to extract audio features''), w')
      | (Some features, w') \<Rightarrow> (predict_steps m sc cfg features, w'))"

text \<open>Lines 259--261: the handler of the outer \<^verbatim>\<open>try\<close>, which catches every \<^verbatim>\<open>Exception\<close>.\<close>

definition prediction_failed :: "libs \<Rightarrow> exn \<Rightarrow> world \<Rightarrow> (exn + prediction_response) \<times> world" where
  "prediction_failed lib e w =
     (Inl (HTTPException 500 (''Prediction failed: '' @ str_exn lib e)),
      print w (''Prediction error: '' @ str_exn lib e))"

text \<open>Lines 254--257: the \<^verbatim>\<open>finally\<close> block removes the temporary file if it exists.\<close>

definition cleanup :: "world \<Rightarrow> path \<Rightarrow> world" where
  "cleanup w temp_path =
     (if is_not_None (files w temp_path) then w\<lparr>files := (files w)(temp_path := None)\<rparr> else w)"

text \<open>
  The endpoint. \<open>temp_path\<close> is the name the operating system gives the temporary file;
  creating and writing that file is taken to succeed. The result is the response or the
  \<^verbatim>\<open>HTTPException\<close> that leaves the handler, and the world after the request.
\<close>

definition predict_cough ::
    "libs \<Rightarrow> globals \<Rightarrow> world \<Rightarrow> path \<Rightarrow> prediction_request
      \<Rightarrow> (exn + prediction_response) \<times> world" where
  "predict_cough lib g w temp_path request =
     (case (model g, scaler g) of
        (Some m, Some sc) \<Rightarrow>
          (case b64decode lib (audio request) of
             Inl e \<Rightarrow> prediction_failed lib e w
           | Inr audio_data \<Rightarrow>
              (case predict_inner lib m sc (config g)
                      (w\<lparr>files := (files w)(temp_path \<mapsto> audio_data)\<rparr>) temp_path of
                 (Inr response, w') \<Rightarrow> (Inr response, cleanup w' temp_path)
               | (Inl e, w') \<Rightarrow> prediction_failed lib e (cleanup w' temp_path)))
      | _ \<Rightarrow> (Inl (HTTPException 503 ''ML model not loaded''), w))"

section \<open>The scaler, from its description\<close>

text \<open>
  Modelled from the spec: the fitted scaler is not among the sources (the artifact
  \<^verbatim>\<open>feature_scaler.pkl\<close> is loaded at startup, and its \<^verbatim>\<open>transform\<close> is
  scikit-learn's). Sections 3 and 4.3 describe it: the scaler state is one location and
  scale pair per feature, a raw vector is scaled as \<^verbatim>\<open>(raw[i] - loc[i]) / scale[i]\<close>,
  and a vector whose length is not the state's signals a \<^verbatim>\<open>DimensionMismatchError\<close>,
  with no truncation and no padding.
\<close>

definition dimension_mismatch :: "nat \<Rightarrow> nat \<Rightarrow> exn" where
  "dimension_mismatch n expected = PyError ''DimensionMismatchError''
     (''X has '' @ str_nat n @ '' features, but the scaler is expecting ''
      @ str_nat expected @ '' features'')"

definition scaler_applier :: "(real \<times> real) list \<Rightarrow> scaler_obj" where
  "scaler_applier scaler_state =
     \<lparr>transform = (\<lambda>raw.
        if length raw \<noteq> length scaler_state
        then Inl (dimension_mismatch (length raw) (length scaler_state))
        else Inr (map (\<lambda>(x, loc, scale). (x - loc) / scale) (zip raw scaler_state)))\<rparr>"

section \<open>A small concrete instance\<close>

text \<open>
  Stand-ins for the libraries and the artifacts, on which the model can be run: every
  transform returns a fixed small matrix, the classifier always answers class 1 with
  probabilities 0.12 and 0.88 (the binary64 numbers nearest to them), the scaler is the
  identity, and the label map is
  \<^verbatim>\<open>{"0": "dry", "1": "wet"}\<close>. Decoding fails on an empty file.
\<close>

definition demo_lib :: libs where
  "demo_lib =
     \<lparr>b64decode = (\<lambda>s. if s = ''!'' then Inl (PyError ''binascii.Error'' ''Incorrect padding'')
                          else Inr s),
      librosa_load = (\<lambda>content sr duration.
                        if content = [] then Inl (PyError ''NoBackendError'' [])
                        else Inr [1/2, -1/2]),
      librosa_mfcc = (\<lambda>y sr n. Inr (replicate n [1, 3])),
      spectral_centroid = (\<lambda>y sr. Inr [[10, 12]]),
      spectral_bandwidth = (\<lambda>y sr. Inr [[20, 22]]),
      spectral_rolloff = (\<lambda>y sr. Inr [[30, 32]]),
      zero_crossing_rate = (\<lambda>y. Inr [[40, 42]]),
      chroma_stft = (\<lambda>y sr. Inr [[50], [52]]),
      spectral_contrast = (\<lambda>y sr. Inr [[60, 62]]),
      tonnetz = (\<lambda>y sr. Inr [[70, 72]]),
      librosa_rms = (\<lambda>y. Inr [[80, 82]]),
      beat_track = (\<lambda>y sr. Inr 120),
      http_exception_str = (\<lambda>status_code detail. str_nat status_code @ '': '' @ detail)\<rparr>"

definition demo_vector :: array1 where
  "demo_vector =
     replicate 13 2 @ replicate 13 1 @ replicate 13 1 @ replicate 13 3
     @ [11, 1, 10, 12, 21, 1, 20, 22, 31, 1, 30, 32, 41, 1, 40, 42,
        51, 1, 50, 52, 61, 1, 60, 62, 71, 1, 70, 72, 81, 1, 80, 82, 120]"

definition double_0_12 :: real where
  "double_0_12 = 1080863910568919 / 2 ^ 53"

definition double_0_88 :: real where
  "double_0_88 = 7926335344172073 / 2 ^ 53"

definition demo_model :: classifier where
  "demo_model = \<lparr>predict = (\<lambda>x. Inr 1), predict_proba = (\<lambda>x. Inr [double_0_12, double_0_88])\<rparr>"

definition demo_scaler :: scaler_obj where
  "demo_scaler = \<lparr>transform = (\<lambda>x. Inr x)\<rparr>"

definition demo_config :: config where
  "demo_config = [''label_mapping'' \<mapsto> [''0'' \<mapsto> ''dry'', ''1'' \<mapsto> ''wet'']]"

definition demo_globals :: globals where
  "demo_globals = \<lparr>model = Some demo_model, scaler = Some demo_scaler, config = Some demo_config\<rparr>"

definition demo_world :: world where
  "demo_world = \<lparr>files = Map.empty, stdout = []\<rparr>"

text \<open>Artifact stores in which the configuration, or the scaler, cannot be read.\<close>

definition io_without_config :: artifact_io where
  "io_without_config =
     \<lparr>joblib_load_model = (\<lambda>p. Inr demo_model),
      joblib_load_scaler = (\<lambda>p. Inr demo_scaler),
      json_load = (\<lambda>p. Inl (PyError ''FileNotFoundError'' (''No such file or directory: '' @ quoted p)))\<rparr>"

definition io_without_scaler :: artifact_io where
  "io_without_scaler =
     \<lparr>joblib_load_model = (\<lambda>p. Inr demo_model),
      joblib_load_scaler =
        (\<lambda>p. Inl (PyError ''FileNotFoundError'' (''No such file or directory: '' @ quoted p))),
      json_load = (\<lambda>p. Inr demo_config)\<rparr>"

section \<open>Auxiliary facts\<close>

text \<open>The binary exponent brackets its argument.\<close>

lemma binade_bounds: "0 < x \<Longrightarrow> 2 powi binade x \<le> x \<and> x < 2 powi (binade x + 1)"
proof (induction x rule: binade.induct)
  case (1 x)
  show ?case
  proof (cases "0 < x \<and> x < 1")
    case True
    then have b: "binade x = binade (2 * x) - 1" by (subst binade.simps) simp
    from True 1 have ih: "2 powi binade (2 * x) \<le> 2 * x \<and> 2 * x < 2 powi (binade (2 * x) + 1)"
      by simp
    have "(2::real) powi (binade (2 * x) - 1) = 2 powi binade (2 * x) / 2"
      by (simp add: power_int_diff)
    moreover have "(2::real) powi (binade (2 * x) + 1) = 2 powi binade (2 * x) * 2"
      by (simp add: power_int_add)
    ultimately show ?thesis using ih b by simp
  next
    case False
    note nf = this
    show ?thesis
    proof (cases "2 \<le> x")
      case True
      with nf have b: "binade x = binade (x / 2) + 1" by (subst binade.simps) simp
      from True nf 1 have ih: "2 powi binade (x / 2) \<le> x / 2 \<and> x / 2 < 2 powi (binade (x / 2) + 1)"
        by simp
      have "(2::real) powi (binade (x / 2) + 1 + 1) = 2 powi (binade (x / 2) + 1) * 2"
        by (simp add: power_int_add)
      moreover have "(2::real) powi (binade (x / 2) + 1) = 2 powi binade (x / 2) * 2"
        by (simp add: power_int_add)
      ultimately show ?thesis using ih b by simp
    next
      case False
      with nf have b: "binade x = 0" by (subst binade.simps) auto
      from False nf 1 show ?thesis by (simp add: b)
    qed
  qed
qed

lemma binade_le:
  assumes "\<bar>x\<bar> < 2 ^ n" and "0 < n"
  shows "binade \<bar>x\<bar> < int n"
proof (cases "0 < \<bar>x\<bar>")
  case True
  from binade_bounds [OF True] have "2 powi binade \<bar>x\<bar> \<le> \<bar>x\<bar>" by simp
  with assms have "(2::real) powi binade \<bar>x\<bar> < 2 powi int n" by simp
  then show ?thesis
    by (metis not_le one_le_numeral power_int_increasing verit_comp_simplify1(3))
next
  case False
  then have "x = 0" by simp
  then show ?thesis using assms(2) by (simp add: binade.simps)
qed

lemma ulp_pos: "0 < ulp x"
  by (simp add: ulp_def)

text \<open>Sequencing stops at the first exception.\<close>

lemma then_do_Inr [simp]: "then_do (Inr x) f = f x"
  by (simp add: then_do_def)

lemma then_do_Inl [simp]: "then_do (Inl e) f = Inl e"
  by (simp add: then_do_def)

lemma then_do_eq_Inr: "then_do m f = Inr y \<longleftrightarrow> (\<exists>x. m = Inr x \<and> f x = Inr y)"
  by (cases m) simp_all

lemma fold_min_Min: "fold min xs (x::real) = Min (insert x (set xs))"
  using Min.set_eq_fold [of x xs] by simp

lemma fold_max_Max: "fold max xs (x::real) = Max (insert x (set xs))"
  using Max.set_eq_fold [of x xs] by simp

lemma np_min_eq_Inr: "np_min xs = Inr v \<longleftrightarrow> xs \<noteq> [] \<and> v = Min (set xs)"
  by (cases xs) (auto simp: np_min_def fold_min_Min)

lemma np_max_eq_Inr: "np_max xs = Inr v \<longleftrightarrow> xs \<noteq> [] \<and> v = Max (set xs)"
  by (cases xs) (auto simp: np_max_def fold_max_Max)

lemma row_min: "(row::real list) \<noteq> [] \<Longrightarrow> fold min (tl row) (hd row) = Min (set row)"
  by (cases row) (simp_all add: fold_min_Min)

lemma row_max: "(row::real list) \<noteq> [] \<Longrightarrow> fold max (tl row) (hd row) = Max (set row)"
  by (cases row) (simp_all add: fold_max_Max)

lemma np_min_axis1_eq_Inr:
  "np_min_axis1 m = Inr v \<longleftrightarrow> [] \<notin> set m \<and> v = map (\<lambda>row. Min (set row)) m"
proof -
  have "[] \<notin> set m \<Longrightarrow> map (\<lambda>row. fold min (tl row) (hd row)) m = map (\<lambda>row. Min (set row)) m"
    by (rule map_cong) (auto intro!: row_min)
  then show ?thesis by (auto simp: np_min_axis1_def)
qed

lemma np_max_axis1_eq_Inr:
  "np_max_axis1 m = Inr v \<longleftrightarrow> [] \<notin> set m \<and> v = map (\<lambda>row. Max (set row)) m"
proof -
  have "[] \<notin> set m \<Longrightarrow> map (\<lambda>row. fold max (tl row) (hd row)) m = map (\<lambda>row. Max (set row)) m"
    by (rule map_cong) (auto intro!: row_max)
  then show ?thesis by (auto simp: np_max_axis1_def)
qed

lemma append_stats_eq_Inr:
  "append_stats fs a = Inr fs' \<longleftrightarrow>
     concat a \<noteq> [] \<and>
     fs' = fs @ [np_mean (concat a), np_std (concat a), Min (set (concat a)), Max (set (concat a))]"
  unfolding append_stats_def by (auto simp: then_do_eq_Inr np_min_eq_Inr np_max_eq_Inr)

lemma compute_features_eq_Inr:
  "compute_features lib y sr = Inr v \<longleftrightarrow>
    (\<exists>mfcc c b r z ch co t rm tempo.
       librosa_mfcc lib y sr 13 = Inr mfcc \<and> [] \<notin> set mfcc \<and>
       spectral_centroid lib y sr = Inr c \<and> concat c \<noteq> [] \<and>
       spectral_bandwidth lib y sr = Inr b \<and> concat b \<noteq> [] \<and>
       spectral_rolloff lib y sr = Inr r \<and> concat r \<noteq> [] \<and>
       zero_crossing_rate lib y = Inr z \<and> concat z \<noteq> [] \<and>
       chroma_stft lib y sr = Inr ch \<and> concat ch \<noteq> [] \<and>
       spectral_contrast lib y sr = Inr co \<and> concat co \<noteq> [] \<and>
       tonnetz lib y sr = Inr t \<and> concat t \<noteq> [] \<and>
       librosa_rms lib y = Inr rm \<and> concat rm \<noteq> [] \<and>
       beat_track lib y sr = Inr tempo \<and>
       v = map np_mean mfcc @ map np_std mfcc
           @ map (\<lambda>row. Min (set row)) mfcc @ map (\<lambda>row. Max (set row)) mfcc
           @ [np_mean (concat c), np_std (concat c), Min (set (concat c)), Max (set (concat c))]
           @ [np_mean (concat b), np_std (concat b), Min (set (concat b)), Max (set (concat b))]
           @ [np_mean (concat r), np_std (concat r), Min (set (concat r)), Max (set (concat r))]
           @ [np_mean (concat z), np_std (concat z), Min (set (concat z)), Max (set (concat z))]
           @ [np_mean (concat ch), np_std (concat ch), Min (set (concat ch)), Max (set (concat ch))]
           @ [np_mean (concat co), np_std (concat co), Min (set (concat co)), Max (set (concat co))]
           @ [np_mean (concat t), np_std (concat t), Min (set (concat t)), Max (set (concat t))]
           @ [np_mean (concat rm), np_std (concat rm), Min (set (concat rm)), Max (set (concat rm))]
           @ [tempo])"
  unfolding compute_features_def
  by (simp add: then_do_eq_Inr append_stats_eq_Inr np_min_axis1_eq_Inr np_max_axis1_eq_Inr
      np_mean_axis1_def np_std_axis1_def Let_def) blast

lemma demo_features: "compute_features demo_lib y 22050 = Inr demo_vector"
  by (simp add: demo_vector_def compute_features_def demo_lib_def append_stats_def np_min_def np_max_def
      np_min_axis1_def np_max_axis1_def np_mean_axis1_def np_std_axis1_def np_std_def np_mean_def)

lemma demo_load: "content \<noteq> [] \<Longrightarrow> librosa_load demo_lib content sr duration = Inr [1/2, -1/2]"
  by (simp add: demo_lib_def)

lemma demo_mfcc_rows: "librosa_mfcc demo_lib y sr n = Inr m \<Longrightarrow> length m = n"
  by (auto simp: demo_lib_def)

lemma demo_extract:
  "files w p = Some content \<Longrightarrow> content \<noteq> [] \<Longrightarrow>
     extract_audio_features demo_lib w p 5 22050 = (Some demo_vector, w)"
  by (simp add: extract_audio_features_def load_path_def demo_load demo_features)

lemma np_index_eq_Inr: "np_index a i = Inr p \<Longrightarrow> p \<in> set a"
  by (auto simp: np_index_def split: if_splits)

lemma label_lookup_eq_Inr:
  "label_lookup cfg key = Inr label \<longleftrightarrow>
     (\<exists>c lm. cfg = Some c \<and> c ''label_mapping'' = Some lm \<and> lm key = Some label)"
  by (auto simp: label_lookup_def split: option.splits)

lemma predict_steps_eq_Inr:
  "predict_steps m sc cfg features = Inr response \<longleftrightarrow>
     (\<exists>features_scaled prediction prediction_proba cough_type p.
        transform sc features = Inr features_scaled \<and>
        predict m features_scaled = Inr prediction \<and>
        predict_proba m features_scaled = Inr prediction_proba \<and>
        label_lookup cfg (str_int prediction) = Inr cough_type \<and>
        np_index prediction_proba prediction = Inr p \<and>
        response = \<lparr>predicted_cough_type = cough_type,
                     confidence_score = py_round (float_mul p 100) 2,
                     message = Some ''Prediction completed successfully''\<rparr>)"
  unfolding predict_steps_def by (simp add: then_do_eq_Inr) blast

lemma predict_cough_eq_Inr:
  "fst (predict_cough lib g w temp_path request) = Inr response \<longleftrightarrow>
     (\<exists>m sc audio_data features.
        model g = Some m \<and> scaler g = Some sc \<and>
        b64decode lib (audio request) = Inr audio_data \<and>
        fst (extract_audio_features lib (w\<lparr>files := (files w)(temp_path \<mapsto> audio_data)\<rparr>)
               temp_path 5 22050) = Some features \<and>
        predict_steps m sc (config g) features = Inr response)"
  by (auto simp: predict_cough_def predict_inner_def prediction_failed_def
      split: option.splits sum.splits prod.splits)

lemma round_half_even_bounds:
  assumes "of_int a \<le> y" "y \<le> of_int b"
  shows "a \<le> round_half_even y \<and> round_half_even y \<le> b"
proof -
  have "a \<le> \<lfloor>y\<rfloor>" using assms(1) by (simp add: le_floor_iff)
  moreover have "\<lfloor>y\<rfloor> \<le> b" using assms(2) by (simp add: floor_le_iff)
  moreover have "of_int \<lfloor>y\<rfloor> < y \<Longrightarrow> \<lfloor>y\<rfloor> + 1 \<le> b"
    using assms(2) by (smt (verit) floor_less_iff of_int_le_iff le_floor_iff of_int_floor_le)
  ultimately show ?thesis
    by (auto simp: round_half_even_def Let_def)
qed

lemma round_half_even_near: "\<bar>of_int (round_half_even y) - y\<bar> \<le> 1/2"
  unfolding round_half_even_def Let_def
  by (auto; linarith)

text \<open>Rounding to binary64 moves a value by at most half a spacing and keeps it in range.\<close>

lemma ulp_small:
  assumes "\<bar>x\<bar> < 128"
  shows "\<exists>k::nat. 46 \<le> k \<and> ulp x = 1 / 2 ^ k"
proof -
  from assms have "\<bar>x\<bar> < 2 ^ 7" by simp
  from binade_le [OF this] have b: "binade \<bar>x\<bar> < 7" by simp
  define e where "e = max (- 1022) (binade \<bar>x\<bar>)"
  define k where "k = nat (52 - e)"
  from b have e: "e - 52 \<le> - 46" by (simp add: e_def)
  then have ek: "e - 52 = - int k" and k: "46 \<le> k" by (simp_all add: k_def)
  have "ulp x = 2 powi (e - 52)" by (simp add: ulp_def e_def)
  also have "\<dots> = 1 / 2 ^ k" unfolding ek by (simp add: power_int_minus_divide)
  finally have "ulp x = 1 / 2 ^ k" .
  with k show ?thesis by blast
qed

lemma to_double_near:
  assumes "\<bar>x\<bar> < 128"
  shows "\<bar>to_double x - x\<bar> \<le> 1 / 2 ^ 47"
proof -
  from ulp_small [OF assms] obtain k :: nat where k: "46 \<le> k" and u: "ulp x = 1 / 2 ^ k" by blast
  have "to_double x - x = (of_int (round_half_even (x / ulp x)) - x / ulp x) * ulp x"
    using ulp_pos [of x] by (simp add: to_double_def left_diff_distrib)
  then have "\<bar>to_double x - x\<bar> = \<bar>of_int (round_half_even (x / ulp x)) - x / ulp x\<bar> * ulp x"
    using ulp_pos [of x] by (simp add: abs_mult)
  also have "\<dots> \<le> 1/2 * ulp x"
    using round_half_even_near [of "x / ulp x"] ulp_pos [of x] by (intro mult_right_mono) simp_all
  also have "\<dots> = 1 / 2 ^ (k + 1)" by (simp add: u)
  also have "\<dots> \<le> 1 / 2 ^ 47"
    using k by (intro divide_left_mono power_increasing) simp_all
  finally show ?thesis .
qed

lemma to_double_range:
  assumes "0 \<le> x" "x \<le> 100"
  shows "0 \<le> to_double x \<and> to_double x \<le> 100"
proof -
  from assms have "\<bar>x\<bar> < 128" by simp
  from ulp_small [OF this] obtain k :: nat where k: "46 \<le> k" and u: "ulp x = 1 / 2 ^ k" by blast
  have "of_int 0 \<le> x / ulp x" using assms(1) ulp_pos [of x] by simp
  moreover have "x / ulp x \<le> of_int (100 * 2 ^ k)" using assms(2) by (simp add: u)
  ultimately have r: "0 \<le> round_half_even (x / ulp x)" "round_half_even (x / ulp x) \<le> 100 * 2 ^ k"
    using round_half_even_bounds by blast+
  from r(1) have lo: "0 \<le> to_double x" using ulp_pos [of x] by (simp add: to_double_def)
  from r(2) have "real_of_int (round_half_even (x / ulp x)) \<le> 100 * 2 ^ k"
    by (metis of_int_le_iff of_int_mult of_int_numeral of_int_power)
  then have "to_double x \<le> 100 * 2 ^ k * ulp x"
    unfolding to_double_def using ulp_pos [of x] by (intro mult_right_mono) simp_all
  also have "\<dots> = 100" by (simp add: u)
  finally show ?thesis using lo by simp
qed

lemma py_round_2_hundredths:
  assumes "0 \<le> x" "x \<le> 100"
  shows "\<exists>n::int. 0 \<le> n \<and> n \<le> 10000 \<and> py_round x 2 = to_double (of_int n / 100)"
proof -
  have "of_int 0 \<le> x * 100" "x * 100 \<le> of_int 10000" using assms by simp_all
  from round_half_even_bounds [OF this]
  have "0 \<le> round_half_even (x * 100)" "round_half_even (x * 100) \<le> 10000" by simp_all
  then show ?thesis by (auto simp: py_round_def)
qed

lemma py_round_2_range:
  assumes "0 \<le> x" "x \<le> 100"
  shows "0 \<le> py_round x 2 \<and> py_round x 2 \<le> 100"
proof -
  from py_round_2_hundredths [OF assms] obtain n :: int where
    n: "0 \<le> n" "n \<le> 10000" and r: "py_round x 2 = to_double (of_int n / 100)" by blast
  from n have "(0::real) \<le> of_int n / 100" "real_of_int n / 100 \<le> 100" by simp_all
  from to_double_range [OF this] r show ?thesis by simp
qed

lemma py_round_2_near:
  assumes "0 \<le> x" "x \<le> 100"
  shows "\<bar>py_round x 2 - x\<bar> \<le> 1/200 + 1 / 2 ^ 47"
proof -
  let ?z = "real_of_int (round_half_even (x * 100)) / 100"
  have "of_int 0 \<le> x * 100" "x * 100 \<le> of_int 10000" using assms by simp_all
  from round_half_even_bounds [OF this]
  have "0 \<le> round_half_even (x * 100)" "round_half_even (x * 100) \<le> 10000" by simp_all
  then have "0 \<le> ?z" "?z \<le> 100" by simp_all
  then have "\<bar>?z\<bar> < 128" by simp
  then have a: "\<bar>to_double ?z - ?z\<bar> \<le> 1 / 2 ^ 47" by (rule to_double_near)
  have "\<bar>of_int (round_half_even (x * 100)) - x * 100\<bar> \<le> 1/2"
    by (rule round_half_even_near)
  then have b: "\<bar>?z - x\<bar> \<le> 1/200" by (simp add: field_simps abs_le_iff)
  have "\<bar>py_round x 2 - x\<bar> \<le> \<bar>to_double ?z - ?z\<bar> + \<bar>?z - x\<bar>"
    by (simp add: py_round_def)
  with a b show ?thesis by linarith
qed

lemma float_mul_percent:
  assumes "0 \<le> p" "p \<le> 1"
  shows "0 \<le> float_mul p 100 \<and> float_mul p 100 \<le> 100
    \<and> \<bar>float_mul p 100 - p * 100\<bar> \<le> 1 / 2 ^ 47"
proof -
  from assms have r: "0 \<le> p * 100" "p * 100 \<le> 100" by simp_all
  then have "\<bar>p * 100\<bar> < 128" by simp
  from to_double_range [OF r] to_double_near [OF this] show ?thesis
    by (simp add: float_mul_def)
qed


lemma to_double_88: "to_double 88 = 88"
proof -
  have "binade 88 = 6" by (simp add: binade.simps)
  then show ?thesis by (simp add: to_double_def ulp_def round_half_even_def)
qed

lemma float_mul_0_88: "float_mul double_0_88 100 = 88"
proof -
  have "binade (7926335344172073 / 2 ^ 53 * 100) = 6" by (simp add: binade.simps)
  then show ?thesis
    by (simp add: float_mul_def double_0_88_def to_double_def ulp_def round_half_even_def)
qed


lemma hundred_le_max_double: "100 \<le> max_double"
  by (simp add: max_double_def)

lemma py_round_88: "py_round 88 2 = 88"
  by (simp add: py_round_def round_half_even_def to_double_88)

text \<open>
  The product of line 246 is rounded before \<^verbatim>\<open>round\<close> sees it: the float 0.50005 lies
  below the decimal 0.50005, its product with 100 rounds to a float above 50.005, and the
  confidence is the float 50.01.
\<close>

lemma float_mul_0_50005:
  "float_mul (4504049987333233 / 2 ^ 53) 100 = 7037578105208177 / 2 ^ 47"
proof -
  have "binade (4504049987333233 / 2 ^ 53 * 100) = 5" by (simp add: binade.simps)
  then show ?thesis by (simp add: float_mul_def to_double_def ulp_def round_half_even_def)
qed

lemma confidence_of_0_50005:
  "py_round (float_mul (4504049987333233 / 2 ^ 53) 100) 2 = to_double (5001 / 100)
   \<and> to_double (5001 / 100) = 7038281792649953 / 2 ^ 47"
proof -
  have "binade (5001 / 100) = 5" by (simp add: binade.simps)
  then have "to_double (5001 / 100) = 7038281792649953 / 2 ^ 47"
    by (simp add: to_double_def ulp_def round_half_even_def)
  moreover have "py_round (float_mul (4504049987333233 / 2 ^ 53) 100) 2 = to_double (5001 / 100)"
    unfolding float_mul_0_50005 by (simp add: py_round_def round_half_even_def)
  ultimately show ?thesis by simp
qed

lemma demo_predict_steps:
  "predict_steps demo_model demo_scaler (Some demo_config) features =
     Inr \<lparr>predicted_cough_type = ''wet'', confidence_score = 88,
          message = Some ''Prediction completed successfully''\<rparr>"
  by (simp add: predict_steps_def demo_model_def demo_scaler_def label_lookup_def demo_config_def
      str_int_def str_nat.simps digit_char_def np_index_def float_mul_0_88 py_round_88)

lemma demo_b64decode: "b64decode demo_lib ''UklGRg=='' = Inr ''UklGRg==''"
  by (simp add: demo_lib_def)

lemma extract_result:
  "fst (extract_audio_features lib (w\<lparr>files := (files w)(p \<mapsto> d)\<rparr>) p td sr) =
     (case then_do (librosa_load lib d sr td) (\<lambda>y. compute_features lib (pad_or_trim y td sr) sr) of
        Inr v \<Rightarrow> Some v | Inl e \<Rightarrow> None)"
  by (simp add: extract_audio_features_def load_path_def split: sum.splits)

lemma predict_inner_result:
  "fst (predict_inner lib m sc cfg (w\<lparr>files := (files w)(p \<mapsto> d)\<rparr>) p) =
     (case then_do (librosa_load lib d 22050 5) (\<lambda>y. compute_features lib (pad_or_trim y 5 22050) 22050) of
        Inr v \<Rightarrow> predict_steps m sc cfg v
      | Inl e \<Rightarrow> Inl (HTTPException 400 ''Failed to extract audio features''))"
  using extract_result [of lib w p d 5 22050]
  by (auto simp: predict_inner_def split: prod.splits option.splits sum.splits)

lemma predict_cough_result:
  "fst (predict_cough lib g w p request) =
     (case (model g, scaler g) of
        (Some m, Some sc) \<Rightarrow>
          (case then_do (b64decode lib (audio request)) (\<lambda>d.
                  fst (predict_inner lib m sc (config g) (w\<lparr>files := (files w)(p \<mapsto> d)\<rparr>) p)) of
             Inr response \<Rightarrow> Inr response
           | Inl e \<Rightarrow> Inl (HTTPException 500 (''Prediction failed: '' @ str_exn lib e)))
      | _ \<Rightarrow> Inl (HTTPException 503 ''ML model not loaded''))"
  by (auto simp: predict_cough_def prediction_failed_def split: option.splits sum.splits prod.splits)

lemma load_models_initial:
  "load_models lib io initial_globals w0 = (ok, g, w1) \<Longrightarrow>
     model g = (case joblib_load_model io (path_join model_dir ''cough_classifier_model.pkl'') of
                  Inr m \<Rightarrow> Some m | Inl e \<Rightarrow> None)
   \<and> (scaler g = None) =
       ((\<forall>m. joblib_load_model io (path_join model_dir ''cough_classifier_model.pkl'') \<noteq> Inr m)
        \<or> (\<forall>s. joblib_load_scaler io (path_join model_dir ''feature_scaler.pkl'') \<noteq> Inr s))
   \<and> ok = (config g \<noteq> None)
   \<and> ok = ((\<exists>m. joblib_load_model io (path_join model_dir ''cough_classifier_model.pkl'') = Inr m)
        \<and> (\<exists>s. joblib_load_scaler io (path_join model_dir ''feature_scaler.pkl'') = Inr s)
        \<and> (\<exists>c. json_load io (path_join model_dir ''model_config.json'') = Inr c))"
  by (auto simp: load_models_def load_failed_def initial_globals_def Let_def split: sum.splits)

lemma predict_cough_unready:
  "model g = None \<or> scaler g = None \<Longrightarrow>
     predict_cough lib g w temp_path request = (Inl (HTTPException 503 ''ML model not loaded''), w)"
  by (auto simp: predict_cough_def split: option.splits)

lemma predict_steps_no_config: "\<exists>e. predict_steps m sc None features = Inl e"
  by (auto simp: predict_steps_def then_do_def label_lookup_def split: sum.splits)

lemma load_without_config:
  "load_models demo_lib io_without_config initial_globals demo_world =
     (False, \<lparr>model = Some demo_model, scaler = Some demo_scaler, config = None\<rparr>,
      snd (snd (load_models demo_lib io_without_config initial_globals demo_world)))"
  by (simp add: load_models_def io_without_config_def load_failed_def initial_globals_def Let_def)

lemma load_without_scaler:
  "load_models demo_lib io_without_scaler initial_globals demo_world =
     (False, \<lparr>model = Some demo_model, scaler = None, config = None\<rparr>,
      snd (snd (load_models demo_lib io_without_scaler initial_globals demo_world)))"
  by (simp add: load_models_def io_without_scaler_def load_failed_def initial_globals_def Let_def)

text \<open>With the scaler missing the guard answers at once, and the world is left as it was.\<close>

lemma missing_scaler_fails_fast:
  "predict_cough lib (fst (snd (load_models demo_lib io_without_scaler initial_globals demo_world)))
      w temp_path request
     = (Inl (HTTPException 503 ''ML model not loaded''), w)"
  by (subst load_without_scaler) (simp add: predict_cough_unready)

lemma demo_b64decode_empty: "b64decode demo_lib [] = Inr []"
  by (simp add: demo_lib_def)

lemma demo_extract_empty:
  "files w p = Some [] \<Longrightarrow>
     extract_audio_features demo_lib w p 5 22050 = (None, print w ''Error extracting features: '')"
  by (simp add: extract_audio_features_def load_path_def demo_lib_def str_exn_def)

lemma demo_str_400:
  "str_exn demo_lib (HTTPException 400 ''Failed to extract audio features'')
     = ''400: Failed to extract audio features''"
  by (simp add: str_exn_def demo_lib_def str_nat.simps digit_char_def)

lemma demo_fails_on_empty:
  "model g = Some m \<Longrightarrow> scaler g = Some sc \<Longrightarrow>
   predict_cough demo_lib g demo_world ''/tmp/tmpq1.webm'' \<lparr>audio = []\<rparr> =
     (Inl (HTTPException 500 ''Prediction failed: 400: Failed to extract audio features''),
      demo_world\<lparr>stdout := [''Error extracting features: '',
                               ''Prediction error: 400: Failed to extract audio features'']\<rparr>)"
  by (simp add: predict_cough_def predict_inner_def demo_b64decode_empty demo_extract_empty
      prediction_failed_def demo_str_400 cleanup_def print_def demo_world_def is_not_None_def)

section \<open>The feature vector\<close>

text \<open>
  C1. Whenever \<^verbatim>\<open>extract_audio_features\<close> returns a vector (and the MFCC transform, asked
  for 13 coefficients, returns 13 rows), the vector has exactly 85 values, in this order:
  the 13 MFCC row means, the 13 row standard deviations, the 13 row minima, the 13 row
  maxima; then mean, standard deviation, minimum and maximum over the whole matrix of the
  spectral centroid, the spectral bandwidth, the spectral rolloff, the zero-crossing rate,
  the chroma, the spectral contrast, the tonnetz and the RMS energy; then the tempo, last.
  Every transform is taken of the padded or trimmed waveform.
\<close>

theorem extract_audio_features_vector:
  assumes ok: "fst (extract_audio_features lib w audio_path target_duration sr) = Some v"
    and mfcc_rows: "\<forall>y m. librosa_mfcc lib y sr 13 = Inr m \<longrightarrow> length m = 13"
  shows "length v = 85 \<and>
    (\<exists>signal y mfcc c b r z ch co t rm tempo.
       load_path lib w audio_path sr target_duration = Inr signal \<and>
       y = pad_or_trim signal target_duration sr \<and>
       librosa_mfcc lib y sr 13 = Inr mfcc \<and>
       spectral_centroid lib y sr = Inr c \<and>
       spectral_bandwidth lib y sr = Inr b \<and>
       spectral_rolloff lib y sr = Inr r \<and>
       zero_crossing_rate lib y = Inr z \<and>
       chroma_stft lib y sr = Inr ch \<and>
       spectral_contrast lib y sr = Inr co \<and>
       tonnetz lib y sr = Inr t \<and>
       librosa_rms lib y = Inr rm \<and>
       beat_track lib y sr = Inr tempo \<and>
       v = map np_mean mfcc @ map np_std mfcc
           @ map (\<lambda>row. Min (set row)) mfcc @ map (\<lambda>row. Max (set row)) mfcc
           @ [np_mean (concat c), np_std (concat c), Min (set (concat c)), Max (set (concat c))]
           @ [np_mean (concat b), np_std (concat b), Min (set (concat b)), Max (set (concat b))]
           @ [np_mean (concat r), np_std (concat r), Min (set (concat r)), Max (set (concat r))]
           @ [np_mean (concat z), np_std (concat z), Min (set (concat z)), Max (set (concat z))]
           @ [np_mean (concat ch), np_std (concat ch), Min (set (concat ch)), Max (set (concat ch))]
           @ [np_mean (concat co), np_std (concat co), Min (set (concat co)), Max (set (concat co))]
           @ [np_mean (concat t), np_std (concat t), Min (set (concat t)), Max (set (concat t))]
           @ [np_mean (concat rm), np_std (concat rm), Min (set (concat rm)), Max (set (concat rm))]
           @ [tempo])"
proof -
  from ok obtain signal where
    ld: "load_path lib w audio_path sr target_duration = Inr signal" and
    cf: "compute_features lib (pad_or_trim signal target_duration sr) sr = Inr v"
    by (auto simp: extract_audio_features_def then_do_eq_Inr split: sum.splits)
  let ?y = "pad_or_trim signal target_duration sr"
  from cf obtain mfcc c b r z ch co t rm tempo where
    calls: "librosa_mfcc lib ?y sr 13 = Inr mfcc" "spectral_centroid lib ?y sr = Inr c"
      "spectral_bandwidth lib ?y sr = Inr b" "spectral_rolloff lib ?y sr = Inr r"
      "zero_crossing_rate lib ?y = Inr z" "chroma_stft lib ?y sr = Inr ch"
      "spectral_contrast lib ?y sr = Inr co" "tonnetz lib ?y sr = Inr t"
      "librosa_rms lib ?y = Inr rm" "beat_track lib ?y sr = Inr tempo" and
    v: "v = map np_mean mfcc @ map np_std mfcc
           @ map (\<lambda>row. Min (set row)) mfcc @ map (\<lambda>row. Max (set row)) mfcc
           @ [np_mean (concat c), np_std (concat c), Min (set (concat c)), Max (set (concat c))]
           @ [np_mean (concat b), np_std (concat b), Min (set (concat b)), Max (set (concat b))]
           @ [np_mean (concat r), np_std (concat r), Min (set (concat r)), Max (set (concat r))]
           @ [np_mean (concat z), np_std (concat z), Min (set (concat z)), Max (set (concat z))]
           @ [np_mean (concat ch), np_std (concat ch), Min (set (concat ch)), Max (set (concat ch))]
           @ [np_mean (concat co), np_std (concat co), Min (set (concat co)), Max (set (concat co))]
           @ [np_mean (concat t), np_std (concat t), Min (set (concat t)), Max (set (concat t))]
           @ [np_mean (concat rm), np_std (concat rm), Min (set (concat rm)), Max (set (concat rm))]
           @ [tempo]"
    unfolding compute_features_eq_Inr by blast
  from mfcc_rows calls(1) have "length mfcc = 13" by blast
  with v have len: "length v = 85" by simp
  from ld calls v have "\<exists>signal y mfcc c b r z ch co t rm tempo.
       load_path lib w audio_path sr target_duration = Inr signal \<and>
       y = pad_or_trim signal target_duration sr \<and>
       librosa_mfcc lib y sr 13 = Inr mfcc \<and>
       spectral_centroid lib y sr = Inr c \<and>
       spectral_bandwidth lib y sr = Inr b \<and>
       spectral_rolloff lib y sr = Inr r \<and>
       zero_crossing_rate lib y = Inr z \<and>
       chroma_stft lib y sr = Inr ch \<and>
       spectral_contrast lib y sr = Inr co \<and>
       tonnetz lib y sr = Inr t \<and>
       librosa_rms lib y = Inr rm \<and>
       beat_track lib y sr = Inr tempo \<and>
       v = map np_mean mfcc @ map np_std mfcc
           @ map (\<lambda>row. Min (set row)) mfcc @ map (\<lambda>row. Max (set row)) mfcc
           @ [np_mean (concat c), np_std (concat c), Min (set (concat c)), Max (set (concat c))]
           @ [np_mean (concat b), np_std (concat b), Min (set (concat b)), Max (set (concat b))]
           @ [np_mean (concat r), np_std (concat r), Min (set (concat r)), Max (set (concat r))]
           @ [np_mean (concat z), np_std (concat z), Min (set (concat z)), Max (set (concat z))]
           @ [np_mean (concat ch), np_std (concat ch), Min (set (concat ch)), Max (set (concat ch))]
           @ [np_mean (concat co), np_std (concat co), Min (set (concat co)), Max (set (concat co))]
           @ [np_mean (concat t), np_std (concat t), Min (set (concat t)), Max (set (concat t))]
           @ [np_mean (concat rm), np_std (concat rm), Min (set (concat rm)), Max (set (concat rm))]
           @ [tempo]"
    by blast
  with len show ?thesis by blast
qed

theorem extract_audio_features_vector_witness:
  "\<exists>v. fst (extract_audio_features demo_lib
            (demo_world\<lparr>files := [''/tmp/cough.webm'' \<mapsto> ''RIFF'']\<rparr>) ''/tmp/cough.webm'' 5 22050)
          = Some v
       \<and> length v = 85 \<and> take 13 v = replicate 13 2 \<and> last v = 120"
proof -
  let ?w = "demo_world\<lparr>files := [''/tmp/cough.webm'' \<mapsto> ''RIFF'']\<rparr>"
  let ?v = demo_vector
  have ev: "fst (extract_audio_features demo_lib ?w ''/tmp/cough.webm'' 5 22050) = Some ?v"
    by (simp add: extract_audio_features_def load_path_def demo_world_def demo_load demo_features)
  have rows: "\<forall>y m. librosa_mfcc demo_lib y 22050 13 = Inr m \<longrightarrow> length m = 13"
    by (blast dest: demo_mfcc_rows)
  have len: "length ?v = 85"
    using extract_audio_features_vector [OF ev rows] by blast
  show ?thesis
  proof (intro exI conjI)
    show "fst (extract_audio_features demo_lib ?w ''/tmp/cough.webm'' 5 22050) = Some ?v"
      by (rule ev)
    show "length ?v = 85" by (rule len)
    show "take 13 ?v = replicate 13 2" by (simp add: demo_vector_def)
    show "last ?v = 120" by (simp add: demo_vector_def)
  qed
qed

section \<open>Audio normalisation\<close>



section \<open>Label and confidence\<close>

text \<open>
  C3. For every request that ends in a prediction, with \<open>prediction\<close> the class index the
  classifier returns for the scaled features and \<open>prediction_proba\<close> its probability
  vector (of entries whose percentage is a finite float): the configuration is loaded and
  has a label map, the returned label is the entry of the label map under
  \<^verbatim>\<open>str(prediction)\<close>, and the returned confidence is the probability at index
  \<open>prediction\<close> times 100, as a float product, rounded to two decimals (see C8). With
  class index 1, the label map \<^verbatim>\<open>{"0": "dry", "1": "wet"}\<close> and the probabilities
  0.12 and 0.88 the response is "wet" with confidence 88.
\<close>

theorem predict_cough_label_and_confidence:
  assumes "fst (predict_cough lib g w temp_path request) = Inr response"
    and "model g = Some m" and "scaler g = Some sc"
    and "b64decode lib (audio request) = Inr audio_data"
    and "fst (extract_audio_features lib (w\<lparr>files := (files w)(temp_path \<mapsto> audio_data)\<rparr>)
               temp_path 5 22050) = Some features"
    and "transform sc features = Inr features_scaled"
    and "predict m features_scaled = Inr prediction"
    and "predict_proba m features_scaled = Inr prediction_proba"
    and "\<forall>q \<in> set prediction_proba. \<bar>q * 100\<bar> \<le> max_double"
  shows "\<exists>cfg label_mapping p.
      config g = Some cfg \<and> cfg ''label_mapping'' = Some label_mapping \<and>
      label_mapping (str_int prediction) = Some (predicted_cough_type response) \<and>
      np_index prediction_proba prediction = Inr p \<and>
      confidence_score response = py_round (float_mul p 100) 2"
  using assms(1-8)
  by (auto simp: predict_cough_eq_Inr predict_steps_eq_Inr label_lookup_eq_Inr)

theorem predict_cough_label_and_confidence_witness:
  "fst (predict_cough demo_lib demo_globals demo_world ''/tmp/tmpk3x.webm'' \<lparr>audio = ''UklGRg==''\<rparr>)
     = Inr \<lparr>predicted_cough_type = ''wet'', confidence_score = 88,
            message = Some ''Prediction completed successfully''\<rparr>
   \<and> (\<exists>label_mapping p.
        demo_config ''label_mapping'' = Some label_mapping \<and>
        label_mapping (str_int 1) = Some ''wet'' \<and>
        np_index [double_0_12, double_0_88] 1 = Inr p \<and>
        (88::real) = py_round (float_mul p 100) 2)"
proof -
  let ?w = "demo_world\<lparr>files := (files demo_world)(''/tmp/tmpk3x.webm'' \<mapsto> ''UklGRg=='')\<rparr>"
  let ?r = "\<lparr>predicted_cough_type = ''wet'', confidence_score = 88,
            message = Some ''Prediction completed successfully''\<rparr>"
  have ex: "fst (extract_audio_features demo_lib ?w ''/tmp/tmpk3x.webm'' 5 22050) = Some demo_vector"
    by (simp add: demo_extract [of _ _ "''UklGRg==''"])
  have run: "fst (predict_cough demo_lib demo_globals demo_world ''/tmp/tmpk3x.webm''
      \<lparr>audio = ''UklGRg==''\<rparr>) = Inr ?r"
    unfolding predict_cough_eq_Inr
    using ex by (simp add: demo_globals_def demo_b64decode demo_predict_steps)
  have b64: "b64decode demo_lib (audio \<lparr>audio = ''UklGRg==''\<rparr>) = Inr ''UklGRg==''"
    by (simp add: demo_b64decode)
  have "\<exists>cfg label_mapping p.
      config demo_globals = Some cfg \<and> cfg ''label_mapping'' = Some label_mapping \<and>
      label_mapping (str_int 1) = Some (predicted_cough_type ?r) \<and>
      np_index [double_0_12, double_0_88] 1 = Inr p \<and>
      confidence_score ?r = py_round (float_mul p 100) 2"
  proof (rule predict_cough_label_and_confidence [OF run _ _ b64 ex])
    show "model demo_globals = Some demo_model" by (simp add: demo_globals_def)
    show "scaler demo_globals = Some demo_scaler" by (simp add: demo_globals_def)
    show "transform demo_scaler demo_vector = Inr demo_vector" by (simp add: demo_scaler_def)
    show "predict demo_model demo_vector = Inr 1" by (simp add: demo_model_def)
    show "predict_proba demo_model demo_vector = Inr [double_0_12, double_0_88]"
      by (simp add: demo_model_def)
    show "\<forall>q \<in> set [double_0_12, double_0_88]. \<bar>q * 100\<bar> \<le> max_double"
      using hundred_le_max_double by (simp add: double_0_12_def double_0_88_def)
  qed
  then have "\<exists>label_mapping p.
        demo_config ''label_mapping'' = Some label_mapping \<and>
        label_mapping (str_int 1) = Some ''wet'' \<and>
        np_index [double_0_12, double_0_88] 1 = Inr p \<and>
        (88::real) = py_round (float_mul p 100) 2"
    by (simp add: demo_globals_def)
  with run show ?thesis by blast
qed

text \<open>
  C8. For every request that ends in a prediction whose probability vector has all its
  entries between 0 and 1, the returned \<^verbatim>\<open>confidence_score\<close> lies between 0 and 100 and
  is the probability at the predicted index, times 100, rounded to two decimals: it is
  \<^verbatim>\<open>round\<close> of the float product, which is the float nearest to a whole number of
  hundredths, and it differs from the exact percentage by at most 0.005 and the two
  float roundings.
\<close>

theorem confidence_score_range_and_rounding:
  assumes "fst (predict_cough lib g w temp_path request) = Inr response"
    and "model g = Some m" and "scaler g = Some sc"
    and "b64decode lib (audio request) = Inr audio_data"
    and "fst (extract_audio_features lib (w\<lparr>files := (files w)(temp_path \<mapsto> audio_data)\<rparr>)
               temp_path 5 22050) = Some features"
    and "transform sc features = Inr features_scaled"
    and "predict m features_scaled = Inr prediction"
    and "predict_proba m features_scaled = Inr prediction_proba"
    and "\<forall>q \<in> set prediction_proba. 0 \<le> q \<and> q \<le> 1"
  shows "0 \<le> confidence_score response \<and> confidence_score response \<le> 100 \<and>
    (\<exists>p. np_index prediction_proba prediction = Inr p \<and>
         confidence_score response = py_round (float_mul p 100) 2 \<and>
         (\<exists>n::int. 0 \<le> n \<and> n \<le> 10000 \<and>
            confidence_score response = to_double (of_int n / 100)) \<and>
         \<bar>confidence_score response - p * 100\<bar> \<le> 1/200 + 1 / 2 ^ 46)"
proof -
  from assms(1-8) obtain p where
    p: "np_index prediction_proba prediction = Inr p" and
    c: "confidence_score response = py_round (float_mul p 100) 2"
    by (auto simp: predict_cough_eq_Inr predict_steps_eq_Inr)
  from p have "p \<in> set prediction_proba" by (rule np_index_eq_Inr)
  with assms(9) have "0 \<le> p" "p \<le> 1" by auto
  from float_mul_percent [OF this] have
    y: "0 \<le> float_mul p 100" "float_mul p 100 \<le> 100" and
    ynear: "\<bar>float_mul p 100 - p * 100\<bar> \<le> 1 / 2 ^ 47" by simp_all
  from py_round_2_range [OF y] c
  have range: "0 \<le> confidence_score response \<and> confidence_score response \<le> 100" by simp
  from py_round_2_hundredths [OF y] c
  have grid: "\<exists>n::int. 0 \<le> n \<and> n \<le> 10000 \<and>
      confidence_score response = to_double (of_int n / 100)" by simp
  from py_round_2_near [OF y] c
  have "\<bar>confidence_score response - float_mul p 100\<bar> \<le> 1/200 + 1 / 2 ^ 47" by simp
  moreover have "\<bar>confidence_score response - p * 100\<bar>
      \<le> \<bar>confidence_score response - float_mul p 100\<bar> + \<bar>float_mul p 100 - p * 100\<bar>"
    by simp
  moreover have "(1 / 2 ^ 47 + 1 / 2 ^ 47 :: real) = 1 / 2 ^ 46" by simp
  ultimately have near: "\<bar>confidence_score response - p * 100\<bar> \<le> 1/200 + 1 / 2 ^ 46"
    using ynear by linarith
  from range p c grid near show ?thesis by blast
qed

theorem confidence_score_range_and_rounding_witness:
  "fst (predict_cough demo_lib demo_globals demo_world ''/tmp/tmp9qz.webm'' \<lparr>audio = ''T2dnUw==''\<rparr>)
     = Inr \<lparr>predicted_cough_type = ''wet'', confidence_score = 88,
            message = Some ''Prediction completed successfully''\<rparr>
   \<and> (0::real) \<le> 88 \<and> (88::real) \<le> 100
   \<and> (\<exists>p. np_index [double_0_12, double_0_88] 1 = Inr p
          \<and> (88::real) = py_round (float_mul p 100) 2)"
proof -
  let ?w = "demo_world\<lparr>files := (files demo_world)(''/tmp/tmp9qz.webm'' \<mapsto> ''T2dnUw=='')\<rparr>"
  let ?r = "\<lparr>predicted_cough_type = ''wet'', confidence_score = 88,
            message = Some ''Prediction completed successfully''\<rparr>"
  have ex: "fst (extract_audio_features demo_lib ?w ''/tmp/tmp9qz.webm'' 5 22050) = Some demo_vector"
    by (simp add: demo_extract [of _ _ "''T2dnUw==''"])
  have b64: "b64decode demo_lib (audio \<lparr>audio = ''T2dnUw==''\<rparr>) = Inr ''T2dnUw==''"
    by (simp add: demo_lib_def)
  have run: "fst (predict_cough demo_lib demo_globals demo_world ''/tmp/tmp9qz.webm''
      \<lparr>audio = ''T2dnUw==''\<rparr>) = Inr ?r"
    unfolding predict_cough_eq_Inr
    using ex b64 by (simp add: demo_globals_def demo_predict_steps)
  have "0 \<le> confidence_score ?r \<and> confidence_score ?r \<le> 100 \<and>
    (\<exists>p. np_index [double_0_12, double_0_88] 1 = Inr p \<and>
         confidence_score ?r = py_round (float_mul p 100) 2 \<and>
         (\<exists>n::int. 0 \<le> n \<and> n \<le> 10000 \<and> confidence_score ?r = to_double (of_int n / 100)) \<and>
         \<bar>confidence_score ?r - p * 100\<bar> \<le> 1/200 + 1 / 2 ^ 46)"
  proof (rule confidence_score_range_and_rounding [OF run _ _ b64 ex])
    show "model demo_globals = Some demo_model" by (simp add: demo_globals_def)
    show "scaler demo_globals = Some demo_scaler" by (simp add: demo_globals_def)
    show "transform demo_scaler demo_vector = Inr demo_vector" by (simp add: demo_scaler_def)
    show "predict demo_model demo_vector = Inr 1" by (simp add: demo_model_def)
    show "predict_proba demo_model demo_vector = Inr [double_0_12, double_0_88]"
      by (simp add: demo_model_def)
    show "\<forall>q \<in> set [double_0_12, double_0_88]. 0 \<le> q \<and> q \<le> 1"
      by (simp add: double_0_12_def double_0_88_def)
  qed
  then have "(0::real) \<le> 88 \<and> (88::real) \<le> 100
     \<and> (\<exists>p. np_index [double_0_12, double_0_88] 1 = Inr p
            \<and> (88::real) = py_round (float_mul p 100) 2)"
    by auto
  with run show ?thesis by blast
qed

section \<open>Determinism\<close>

text \<open>
  C7. The answer of \<^verbatim>\<open>predict_cough\<close> (the response, or the error that leaves the
  handler) is a function of the request, the libraries and the loaded globals alone: it is
  the same whatever files exist, whatever was printed before and whatever name the
  temporary file gets. In particular a second run on the world the first run left behind
  gives the same answer. The handler has no access to the globals other than reading them.
\<close>

theorem predict_cough_deterministic:
  "fst (predict_cough lib g w1 temp_path1 request) = fst (predict_cough lib g w2 temp_path2 request)
   \<and> fst (predict_cough lib g (snd (predict_cough lib g w1 temp_path1 request)) temp_path2 request)
       = fst (predict_cough lib g w1 temp_path1 request)"
  by (simp add: predict_cough_result predict_inner_result split: option.splits)

section \<open>The health endpoints\<close>

text \<open>
  C10. \<^verbatim>\<open>/health\<close> answers status "healthy" exactly when the model global is not
  \<^verbatim>\<open>None\<close>, and "unhealthy" otherwise; the scaler and the configuration are reported in
  fields of their own and changing them leaves the status as it is. The \<^verbatim>\<open>model_loaded\<close>
  field of the root endpoint reflects the model alone, and the whole root answer does not
  depend on the scaler or the configuration.
\<close>

theorem health_reports_model_only:
  "(map_of (health g) ''status'' = Some (JStr ''healthy'')) = (model g \<noteq> None)
   \<and> map_of (health g) ''status''
       = Some (JStr (if model g = None then ''unhealthy'' else ''healthy''))
   \<and> map_of (health (g\<lparr>scaler := s, config := c\<rparr>)) ''status'' = map_of (health g) ''status''
   \<and> map_of (health g) ''model_loaded'' = Some (JBool (model g \<noteq> None))
   \<and> map_of (health g) ''scaler_loaded'' = Some (JBool (scaler g \<noteq> None))
   \<and> map_of (health g) ''config_loaded'' = Some (JBool (config g \<noteq> None))
   \<and> map_of (root g) ''model_loaded'' = Some (JBool (model g \<noteq> None))
   \<and> root (g\<lparr>scaler := s, config := c\<rparr>) = root g"
  by (cases "model g"; cases "scaler g"; cases "config g")
     (simp_all add: health_def root_def is_not_None_def)

theorem health_reports_model_only_witness:
  "map_of (health \<lparr>model = Some demo_model, scaler = None, config = None\<rparr>) ''status''
     = Some (JStr ''healthy'')
   \<and> map_of (health \<lparr>model = None, scaler = Some demo_scaler, config = Some demo_config\<rparr>) ''status''
     = Some (JStr ''unhealthy'')"
  using health_reports_model_only [of "\<lparr>model = Some demo_model, scaler = None, config = None\<rparr>"]
    health_reports_model_only [of "\<lparr>model = None, scaler = Some demo_scaler, config = Some demo_config\<rparr>"]
  by simp

section \<open>Startup and readiness\<close>

text \<open>
  C4. The guard of \<^verbatim>\<open>predict_cough\<close> (line 218) tests the model and the scaler, and
  answers 503 at once when either is missing. It does not test the configuration: with
  the model and the scaler loaded and the configuration missing, no request is answered
  with 503. Each one passes the guard, runs the pipeline and is answered with status 500;
  with decodable audio it fails only at the label lookup of line 245, after the features
  were extracted.
\<close>

theorem missing_config_passes_guard:
  assumes "model g = Some m" and "scaler g = Some sc" and "config g = None"
  shows "fst (predict_cough lib g w temp_path request)
      \<noteq> Inl (HTTPException 503 ''ML model not loaded'')
    \<and> (\<exists>detail. fst (predict_cough lib g w temp_path request) = Inl (HTTPException 500 detail))"
proof -
  have "\<And>v. \<exists>e. predict_steps m sc None v = Inl e" by (rule predict_steps_no_config)
  then have "\<And>v. \<forall>r. predict_steps m sc None v \<noteq> Inr r" by (metis sum.distinct(1))
  then have "\<exists>detail. fst (predict_cough lib g w temp_path request) = Inl (HTTPException 500 detail)"
    using assms
    by (auto simp: predict_cough_result predict_inner_result then_do_def split: sum.splits)
  then show ?thesis by auto
qed

theorem missing_config_passes_guard_witness:
  "load_models demo_lib io_without_config initial_globals demo_world
     = (False, \<lparr>model = Some demo_model, scaler = Some demo_scaler, config = None\<rparr>,
        snd (snd (load_models demo_lib io_without_config initial_globals demo_world)))
   \<and> fst (predict_cough demo_lib \<lparr>model = Some demo_model, scaler = Some demo_scaler, config = None\<rparr>
            demo_world ''/tmp/tmpq1.webm'' \<lparr>audio = ''UklGRg==''\<rparr>)
       = Inl (HTTPException 500
               (''Prediction failed: '' @ quoted ''NoneType'' @ '' object is not subscriptable''))
   \<and> fst (predict_cough demo_lib \<lparr>model = Some demo_model, scaler = Some demo_scaler, config = None\<rparr>
            demo_world ''/tmp/tmpq1.webm'' \<lparr>audio = ''UklGRg==''\<rparr>)
       \<noteq> Inl (HTTPException 503 ''ML model not loaded'')
   \<and> stdout (snd (predict_cough demo_lib
            \<lparr>model = Some demo_model, scaler = Some demo_scaler, config = None\<rparr>
            demo_world ''/tmp/tmpq1.webm'' \<lparr>audio = []\<rparr>))
       = [''Error extracting features: '',
          ''Prediction error: 400: Failed to extract audio features'']"
proof -
  let ?g = "\<lparr>model = Some demo_model, scaler = Some demo_scaler, config = None\<rparr>"
  have steps: "predict_steps demo_model demo_scaler None demo_vector
      = Inl (PyError ''TypeError'' (quoted ''NoneType'' @ '' object is not subscriptable''))"
    by (simp add: predict_steps_def demo_model_def demo_scaler_def label_lookup_def)
  have b64: "b64decode demo_lib ''UklGRg=='' = Inr ''UklGRg==''"
    by (simp add: demo_lib_def)
  have run: "fst (predict_cough demo_lib ?g demo_world ''/tmp/tmpq1.webm'' \<lparr>audio = ''UklGRg==''\<rparr>)
      = Inl (HTTPException 500
               (''Prediction failed: '' @ quoted ''NoneType'' @ '' object is not subscriptable''))"
    by (simp add: predict_cough_def predict_inner_def b64 demo_extract [of _ _ "''UklGRg==''"]
        steps prediction_failed_def str_exn_def)
  have not503: "fst (predict_cough demo_lib ?g demo_world ''/tmp/tmpq1.webm'' \<lparr>audio = ''UklGRg==''\<rparr>)
      \<noteq> Inl (HTTPException 503 ''ML model not loaded'')"
    using missing_config_passes_guard [of ?g demo_model demo_scaler demo_lib demo_world
        "''/tmp/tmpq1.webm''" "\<lparr>audio = ''UklGRg==''\<rparr>"]
    by simp
  have out: "stdout (snd (predict_cough demo_lib ?g demo_world ''/tmp/tmpq1.webm'' \<lparr>audio = []\<rparr>))
      = [''Error extracting features: '',
         ''Prediction error: 400: Failed to extract audio features'']"
    by (simp add: demo_fails_on_empty)
  from load_without_config run not503 out show ?thesis by blast
qed

section \<open>Failures of the pipeline\<close>

text \<open>
  C5. When extraction returns \<^verbatim>\<open>None\<close> (no vector at all), line 235 raises
  \<^verbatim>\<open>HTTPException(400, "Failed to extract audio features")\<close> inside the outer
  \<^verbatim>\<open>try\<close>, whose handler catches every \<^verbatim>\<open>Exception\<close>: the request is answered with
  status 500 and the detail "Prediction failed: " followed by \<^verbatim>\<open>str\<close> of the 400
  exception, not with the status 400 that was raised.
\<close>

theorem extraction_failure_answer:
  assumes "model g = Some m" and "scaler g = Some sc"
    and "b64decode lib (audio request) = Inr audio_data"
    and "fst (extract_audio_features lib (w\<lparr>files := (files w)(temp_path \<mapsto> audio_data)\<rparr>)
               temp_path 5 22050) = None"
  shows "fst (predict_cough lib g w temp_path request)
     = Inl (HTTPException 500
         (''Prediction failed: '' @ http_exception_str lib 400 ''Failed to extract audio features''))"
  using assms
  by (auto simp: predict_cough_def predict_inner_def prediction_failed_def str_exn_def
      split: prod.splits option.splits)

theorem extraction_failure_answer_witness:
  "fst (predict_cough demo_lib demo_globals demo_world ''/tmp/tmpq1.webm'' \<lparr>audio = []\<rparr>)
     = Inl (HTTPException 500 ''Prediction failed: 400: Failed to extract audio features'')"
proof -
  have m: "model demo_globals = Some demo_model" and sc: "scaler demo_globals = Some demo_scaler"
    by (simp_all add: demo_globals_def)
  have b64: "b64decode demo_lib (audio \<lparr>audio = []\<rparr>) = Inr []"
    by (simp add: demo_b64decode_empty)
  have ex: "fst (extract_audio_features demo_lib
      (demo_world\<lparr>files := (files demo_world)(''/tmp/tmpq1.webm'' \<mapsto> [])\<rparr>)
      ''/tmp/tmpq1.webm'' 5 22050) = None"
    by (simp add: demo_extract_empty)
  have s: "http_exception_str demo_lib 400 ''Failed to extract audio features''
      = ''400: Failed to extract audio features''"
    using demo_str_400 by (simp add: str_exn_def)
  from extraction_failure_answer [OF m sc b64 ex] show ?thesis
    by (simp add: s)
qed

text \<open>
  C6. On the scaler as sections 3 and 4.3 describe it: a vector whose length is not the
  number of fitted features is refused with a dimension mismatch, and \<^verbatim>\<open>predict_cough\<close>
  passes the extracted vector to the scaler as it is, so the refusal ends the prediction;
  a vector of the fitted length is scaled entry by entry to a vector of the same length.
\<close>

theorem scaler_applier_dimension_check:
  "(length raw \<noteq> length scaler_state \<longrightarrow>
      transform (scaler_applier scaler_state) raw
        = Inl (dimension_mismatch (length raw) (length scaler_state))
      \<and> predict_steps m (scaler_applier scaler_state) cfg raw
        = Inl (dimension_mismatch (length raw) (length scaler_state)))
   \<and> (length raw = length scaler_state \<longrightarrow>
      (\<exists>scaled. transform (scaler_applier scaler_state) raw = Inr scaled
         \<and> length scaled = length raw
         \<and> (\<forall>i < length raw.
               scaled ! i = (raw ! i - fst (scaler_state ! i)) / snd (scaler_state ! i))))"
  by (auto simp: scaler_applier_def predict_steps_def split: prod.splits)

theorem scaler_applier_dimension_check_witness:
  "transform (scaler_applier (replicate 85 (0, 1))) (replicate 84 0)
     = Inl (dimension_mismatch 84 85)
   \<and> (\<exists>scaled. transform (scaler_applier [(1, 2), (0, 4)]) [5, 2] = Inr scaled \<and> scaled ! 0 = 2)"
proof -
  have a: "transform (scaler_applier (replicate 85 (0, 1))) (replicate 84 0)
     = Inl (dimension_mismatch 84 85)"
    using scaler_applier_dimension_check [of "replicate 84 0" "replicate 85 (0, 1)"]
    by simp
  have b: "\<exists>scaled. transform (scaler_applier [(1, 2), (0, 4)]) [5, 2] = Inr scaled \<and> scaled ! 0 = 2"
    using scaler_applier_dimension_check [of "[5, 2]" "[(1, 2), (0, 4)]"]
    by auto
  from a b show ?thesis by blast
qed

end
